theory Spec2Isabelle
  imports Complex_Main
begin

section \<open>Values\<close>

text \<open>
  Python's \<open>None\<close> is \<open>None\<close> of an option type; a dictionary with a fixed set of
  keys is a record of option fields. A Python float is the rational number it denotes,
  and every float operation rounds its exact result to the nearest binary64 number, as
  the hardware does.
\<close>

datatype error = KeyError | PredictorError

text \<open>Truthiness of an optional number: \<open>None\<close> and zero are false.\<close>

definition truthy_int :: "int option \<Rightarrow> bool" where
  "truthy_int v = (case v of None \<Rightarrow> False | Some n \<Rightarrow> n \<noteq> 0)"

definition truthy :: "rat option \<Rightarrow> bool" where
  "truthy v = (case v of None \<Rightarrow> False | Some x \<Rightarrow> x \<noteq> 0)"

text \<open>Rounding to the nearest integer, ties to the even neighbour.\<close>

definition round_half_even :: "rat \<Rightarrow> int" where
  "round_half_even q =
     (let f = \<lfloor>q\<rfloor>; d = q - of_int f
      in if d < 1 / 2 then f
         else if 1 / 2 < d then f + 1
         else if even f then f else f + 1)"

subsection \<open>Binary64 arithmetic\<close>

text \<open>
  \<open>nbits n\<close> is the number of binary digits of a positive integer, \<open>pow2 e\<close> the
  power of two with an integer exponent, and \<open>ilog2 x\<close> the exponent \<open>k\<close> with
  \<open>2^k \<le> |x| < 2^(k+1)\<close> of a rational \<open>x\<close> that is not zero.
\<close>

function nbits :: "int \<Rightarrow> int" where
  "nbits n = (if n \<le> 0 then 0 else 1 + nbits (n div 2))"
  by pat_completeness auto
termination
  by (relation "measure nat") auto

declare nbits.simps [simp del]

definition pow2 :: "int \<Rightarrow> rat" where
  "pow2 e = (if 0 \<le> e then 2 ^ nat e else 1 / 2 ^ nat (- e))"

definition ilog2 :: "rat \<Rightarrow> int" where
  "ilog2 x =
     (let (p, q) = quotient_of \<bar>x\<bar>;
          k = nbits p - nbits q
      in if pow2 k \<le> \<bar>x\<bar> then k else k - 1)"

text \<open>
  \<open>double x\<close> is the float nearest to \<open>x\<close>: the multiple of \<open>2^(ilog2 x - 52)\<close>
  nearest to it, so that the significand has 53 binary digits, with ties to the even
  significand. It is the value of a literal such as \<open>0.01\<close>, of the conversion of an
  integer, and of the exact result of an operation. The exponent is not bounded here:
  a result beyond the largest float (Python's \<open>inf\<close>) or below the smallest normal one
  (gradual underflow, and with it the \<open>ZeroDivisionError\<close> of \<open>calc_bmi\<close> for a
  height under about 1e-160, whose square underflows to zero), infinities and NaN are
  outside this model.
\<close>

definition double :: "rat \<Rightarrow> rat" where
  "double x =
     (if x = 0 then 0
      else (let e = ilog2 x - 52 in of_int (round_half_even (x / pow2 e)) * pow2 e))"

definition fadd :: "rat \<Rightarrow> rat \<Rightarrow> rat" where
  "fadd x y = double (x + y)"

definition fsub :: "rat \<Rightarrow> rat \<Rightarrow> rat" where
  "fsub x y = double (x - y)"

definition fmul :: "rat \<Rightarrow> rat \<Rightarrow> rat" where
  "fmul x y = double (x * y)"

definition fdiv :: "rat \<Rightarrow> rat \<Rightarrow> rat" where
  "fdiv x y = double (x / y)"

text \<open>
  \<open>round(x, 1)\<close> rounds the exact value of the float \<open>x\<close> to one decimal, ties to
  the even digit, and returns the float nearest to that decimal.
\<close>

definition round1 :: "rat \<Rightarrow> rat" where
  "round1 x = double (of_int (round_half_even (x * 10)) / 10)"

text \<open>\<open>int(x)\<close> truncates towards zero.\<close>

definition py_int :: "rat \<Rightarrow> int" where
  "py_int q = (if 0 \<le> q then \<lfloor>q\<rfloor> else \<lceil>q\<rceil>)"


section \<open>utils.py\<close>

subsection \<open>The form dictionary\<close>

text \<open>
  The in-progress form is the dictionary with the keys \<open>age\<close>, \<open>weight\<close>,
  \<open>height\<close> and \<open>bmi\<close>; it is also the feature dictionary given to the predictor.
\<close>

record form =
  age :: "int option"
  weight :: "rat option"
  height :: "rat option"
  bmi :: "rat option"

subsection \<open>calc_bmi\<close>

fun calc_bmi :: "rat option \<Rightarrow> rat option \<Rightarrow> rat option" where
  "calc_bmi (Some weight_kg) (Some height_cm) =
     (if weight_kg = 0 \<or> height_cm = 0 \<or> height_cm \<le> 0 then None
      else (let h_m = fdiv height_cm 100
            in Some (round1 (fdiv weight_kg (fmul h_m h_m)))))"
| "calc_bmi _ _ = None"

subsection \<open>model_predict_prob\<close>

text \<open>
  The loaded model is opaque: \<open>float(_model.predict_proba(X)[0][1])\<close> for the feature
  row \<open>X = [[age, bmi]]\<close> either yields a number or raises, and every exception raised
  inside the \<open>try\<close> block is one error value. \<open>_model\<close> is \<open>None\<close> when no model
  file could be loaded.
\<close>

type_synonym predictor = "int option \<Rightarrow> rat option \<Rightarrow> error + rat"

definition try_model :: "predictor \<Rightarrow> form \<Rightarrow> error + rat" where
  "try_model m features =
     (case m (age features) (bmi features) of
        Inl e \<Rightarrow> Inl e
      | Inr p \<Rightarrow> Inr (max 0 (min 1 p)))"

text \<open>The block after the \<open>try\<close>: the fallback risk score.\<close>

definition fallback_score :: "form \<Rightarrow> rat" where
  "fallback_score features =
     (let a = (case age features of None \<Rightarrow> 0 | Some v \<Rightarrow> v);
          b = (case bmi features of None \<Rightarrow> 0 | Some v \<Rightarrow> v);
          score0 = (0::rat);
          score1 = fadd score0
                     (if a > 30 then fmul (double (of_int (a - 30))) (double (1 / 100)) else 0);
          score2 = fadd score1
                     (if b > 25 then fmul (fsub b 25) (double (2 / 100)) else 0)
      in max 0 (min 1 score2))"

definition model_predict_prob :: "predictor option \<Rightarrow> form \<Rightarrow> rat" where
  "model_predict_prob model features =
     (case model of
        None \<Rightarrow> fallback_score features
      | Some m \<Rightarrow>
          (case try_model m features of
             Inr p \<Rightarrow> p
           | Inl e \<Rightarrow> fallback_score features))"

subsection \<open>label_from_prob\<close>

text \<open>
  The thresholds are written as the decimals 34/100 and 67/100. The literals \<open>0.34\<close>
  and \<open>0.67\<close> of the code are the floats next above them (\<open>threshold_literals\<close>
  below), so a float is below the literal exactly when it is below the decimal.
\<close>

definition label_from_prob :: "rat \<Rightarrow> string" where
  "label_from_prob p =
     (if p < 34 / 100 then ''Low''
      else if p < 67 / 100 then ''Medium''
      else ''High'')"


section \<open>leggo.py: the additive point score\<close>

text \<open>
  The keys of \<open>user_data\<close> that \<open>calculate_risk_score\<close> reads; \<open>None\<close> is an absent
  key, for which \<open>get\<close> returns its default.
\<close>

record user_data =
  ud_age :: "int option"
  ud_bmi :: "rat option"
  family_history :: "bool option"
  regular_exercise :: "bool option"
  high_bp :: "bool option"
  high_glucose :: "bool option"

definition get_default :: "'a option \<Rightarrow> 'a \<Rightarrow> 'a" where
  "get_default v d = (case v of None \<Rightarrow> d | Some x \<Rightarrow> x)"

definition calculate_risk_score :: "user_data \<Rightarrow> int \<times> string \<times> int" where
  "calculate_risk_score ud =
     (let score0 = (0::int);
          a = get_default (ud_age ud) 0;
          score1 = (if a \<ge> 45 then score0 + 20
                    else if a \<ge> 35 then score0 + 10 else score0);
          b = get_default (ud_bmi ud) 0;
          score2 = (if b \<ge> 30 then score1 + 30
                    else if b \<ge> 25 then score1 + 20
                    else if b \<ge> 23 then score1 + 10 else score1);
          score3 = (if get_default (family_history ud) False then score2 + 25 else score2);
          score4 = (if \<not> get_default (regular_exercise ud) True then score3 + 15 else score3);
          score5 = (if get_default (high_bp ud) False then score4 + 15 else score4);
          score = (if get_default (high_glucose ud) False then score5 + 20 else score5)
      in if score \<le> 30 then
           (score, ''Low Risk'', min (score * 2) 25)
         else if score \<le> 60 then
           (score, ''Medium Risk'',
            py_int (min (fadd 30 (fmul (double (of_int (score - 30))) (double (3 / 2)))) 60))
         else
           (score, ''High Risk'',
            py_int (min (fadd 60 (fmul (double (of_int (score - 60))) (double (6 / 5)))) 90)))"


section \<open>state.py: the session state\<close>

text \<open>
  A result dictionary, as written by the risk page; \<open>None\<close> is an absent key. An
  assessment is the dictionary that \<open>save_assessment\<close> appends to the history.
\<close>

record result =
  prob :: "rat option"
  label :: "string option"
  created_at :: "string option"
  inputs :: "form option"

record assessment =
  a_created_at :: string
  a_age :: "int option"
  a_weight :: "rat option"
  a_height :: "rat option"
  a_bmi :: "rat option"
  risk_prob :: "rat option"
  risk_label :: "string option"

text \<open>
  The three keys of \<open>st.session_state\<close>; \<open>None\<close> is a key that is not set yet. The
  value under \<open>current_result\<close> is itself \<open>None\<close> or a result.
\<close>

record session_state =
  assessments :: "assessment list option"
  current_form :: "form option"
  current_result :: "result option option"

definition empty_form :: form where
  "empty_form = \<lparr>age = None, weight = None, height = None, bmi = None\<rparr>"

definition ensure_state :: "session_state \<Rightarrow> session_state" where
  "ensure_state s =
     (let s1 = (if assessments s = None then s\<lparr>assessments := Some []\<rparr> else s);
          s2 = (if current_form s1 = None then s1\<lparr>current_form := Some empty_form\<rparr> else s1)
      in if current_result s2 = None then s2\<lparr>current_result := Some None\<rparr> else s2)"

text \<open>
  \<open>save_assessment\<close>: \<open>now\<close> is the reading of \<open>datetime.utcnow().isoformat()\<close>, used
  when the result has no \<open>created_at\<close>. Reading a key that is not set raises KeyError.
\<close>

definition save_assessment :: "string \<Rightarrow> result \<Rightarrow> session_state \<Rightarrow> error + session_state" where
  "save_assessment now res s0 =
     (let s = ensure_state s0
      in case current_form s of
           None \<Rightarrow> Inl KeyError
         | Some f \<Rightarrow>
             (let data = \<lparr>a_created_at = get_default (created_at res) now,
                          a_age = age f,
                          a_weight = weight f,
                          a_height = height f,
                          a_bmi = bmi f,
                          risk_prob = prob res,
                          risk_label = label res\<rparr>
              in case assessments s of
                   None \<Rightarrow> Inl KeyError
                 | Some h \<Rightarrow> Inr (s\<lparr>assessments := Some (h @ [data])\<rparr>)))"

definition clear_current :: "session_state \<Rightarrow> session_state" where
  "clear_current s =
     s\<lparr>current_form := Some \<lparr>age = None, weight = None, height = None, bmi = None\<rparr>,
       current_result := Some None\<rparr>"


section \<open>pages/risk.py\<close>

text \<open>
  One run of the page script. \<open>age_in\<close>, \<open>weight_in\<close> and \<open>height_in\<close> are what the
  three number inputs return, \<open>submitted\<close> what the submit button returns, \<open>model\<close>
  the loaded model and \<open>now\<close> the clock reading. The form dictionary is updated in
  place, so the session state holds the new values whatever happens afterwards.
\<close>

definition fill_form :: "int option \<Rightarrow> rat option \<Rightarrow> rat option \<Rightarrow> form \<Rightarrow> form" where
  "fill_form age_in weight_in height_in f0 =
     (let f = f0\<lparr>age := age_in, weight := weight_in, height := height_in\<rparr>
      in if truthy (weight f) \<and> truthy (height f)
         then f\<lparr>bmi := calc_bmi (weight f) (height f)\<rparr>
         else f)"

definition all_fields :: "form \<Rightarrow> bool" where
  "all_fields f = (truthy_int (age f) \<and> truthy (weight f) \<and> truthy (height f) \<and> truthy (bmi f))"

datatype outcome = NotSubmitted | ValidationFailure | Scored

definition risk_page ::
  "predictor option \<Rightarrow> string \<Rightarrow> int option \<Rightarrow> rat option \<Rightarrow> rat option \<Rightarrow> bool
     \<Rightarrow> session_state \<Rightarrow> error + (outcome \<times> session_state)" where
  "risk_page model now age_in weight_in height_in submitted s0 =
     (let s = ensure_state s0
      in case current_form s of
           None \<Rightarrow> Inl KeyError
         | Some f0 \<Rightarrow>
             (let f = fill_form age_in weight_in height_in f0;
                  s1 = s\<lparr>current_form := Some f\<rparr>
              in if submitted then
                   (if all_fields f then
                      (let p = model_predict_prob model f;
                           l = label_from_prob p
                       in Inr (Scored,
                               s1\<lparr>current_result :=
                                    Some (Some \<lparr>prob = Some p, label = Some l,
                                                created_at = Some now, inputs = Some f\<rparr>)\<rparr>))
                    else Inr (ValidationFailure, s1))
                 else Inr (NotSubmitted, s1)))"


section \<open>pages/Results.py\<close>

text \<open>
  One run of the page script: it stops when there is no result, reads \<open>prob\<close> and
  \<open>label\<close> for the display, and then calls \<open>save_assessment\<close>. An empty dictionary
  is false.
\<close>

definition result_empty :: "result \<Rightarrow> bool" where
  "result_empty r = (prob r = None \<and> label r = None \<and> created_at r = None \<and> inputs r = None)"

definition results_page :: "string \<Rightarrow> session_state \<Rightarrow> error + session_state" where
  "results_page now s0 =
     (let s = ensure_state s0
      in case current_result s of
           None \<Rightarrow> Inl KeyError
         | Some None \<Rightarrow> Inr s
         | Some (Some res) \<Rightarrow>
             if result_empty res then Inr s
             else if prob res = None then Inl KeyError
             else if label res = None then Inl KeyError
             else save_assessment now res s)"


section \<open>Scenarios\<close>

text \<open>
  Recording a result twice in a row, as two runs of the Results page on the same
  result do, and the length of the history that a recording call leaves behind.
\<close>

definition record_twice :: "string \<Rightarrow> result \<Rightarrow> session_state \<Rightarrow> error + session_state" where
  "record_twice now res s =
     (case save_assessment now res s of Inl e \<Rightarrow> Inl e | Inr s1 \<Rightarrow> save_assessment now res s1)"

definition history_length :: "error + session_state \<Rightarrow> nat option" where
  "history_length r = (case r of Inl e \<Rightarrow> None | Inr s \<Rightarrow> map_option length (assessments s))"

text \<open>
  A session before its first page run; the session after the submission age 50, weight
  95 kg, height 170 cm was scored without a model; and that session after a second
  submission, age 25, weight 60 kg, height 0, failed validation. The BMI of the first
  submission is the float 32.9 and its probability the float 0.358.
\<close>

definition fresh_session :: session_state where
  "fresh_session = \<lparr>assessments = None, current_form = None, current_result = None\<rparr>"

definition scored_result :: result where
  "scored_result =
     \<lparr>prob = Some (double (358 / 1000)), label = Some ''Medium'',
      created_at = Some ''2025-01-01T10:00:00'',
      inputs = Some \<lparr>age = Some 50, weight = Some 95, height = Some 170,
                     bmi = Some (double (329 / 10))\<rparr>\<rparr>"

definition scored_session :: session_state where
  "scored_session =
     \<lparr>assessments = Some [],
      current_form = Some \<lparr>age = Some 50, weight = Some 95, height = Some 170,
                           bmi = Some (double (329 / 10))\<rparr>,
      current_result = Some (Some scored_result)\<rparr>"

definition stale_session :: session_state where
  "stale_session =
     \<lparr>assessments = Some [],
      current_form = Some \<lparr>age = Some 25, weight = Some 60, height = Some 0,
                           bmi = Some (double (329 / 10))\<rparr>,
      current_result = Some (Some scored_result)\<rparr>"


section \<open>Properties of the state helpers\<close>

lemma ensure_state_form: "\<exists>f. current_form (ensure_state s) = Some f"
  by (cases "current_form s") (simp_all add: ensure_state_def Let_def)

lemma ensure_state_assessments:
  "assessments (ensure_state s) = Some (get_default (assessments s) [])"
  by (cases "assessments s") (simp_all add: ensure_state_def Let_def get_default_def)

lemma ensure_state_current_form:
  "current_form (ensure_state s) = Some (get_default (current_form s) empty_form)"
  by (cases "current_form s") (simp_all add: ensure_state_def Let_def get_default_def)

lemma ensure_state_idem: "ensure_state (ensure_state s) = ensure_state s"
  by (simp add: ensure_state_def Let_def)

text \<open>\<open>save_assessment\<close> never raises: after \<open>ensure_state\<close> both keys it reads are set.\<close>

lemma save_assessment_eq:
  "save_assessment now res s =
     Inr ((ensure_state s)\<lparr>assessments :=
        Some (get_default (assessments s) [] @
          [\<lparr>a_created_at = get_default (created_at res) now,
            a_age = age (get_default (current_form s) empty_form),
            a_weight = weight (get_default (current_form s) empty_form),
            a_height = height (get_default (current_form s) empty_form),
            a_bmi = bmi (get_default (current_form s) empty_form),
            risk_prob = prob res, risk_label = label res\<rparr>])\<rparr>)"
  by (simp add: save_assessment_def Let_def ensure_state_assessments ensure_state_current_form)

text \<open>
  After the form is filled, the stored \<open>bmi\<close> is only consulted when weight and height
  are both true, and then it is the freshly computed one.
\<close>

lemma all_fields_fill_form:
  "all_fields (fill_form age_in weight_in height_in f0) =
     (truthy_int age_in \<and> truthy weight_in \<and> truthy height_in
        \<and> truthy (calc_bmi weight_in height_in))"
  by (auto simp add: all_fields_def fill_form_def Let_def)

text \<open>
  The worked example: 95 kg and 170 cm give the float 32.9, and age 50 with that BMI
  the float 0.358, which is Medium.
\<close>

lemma bmi_95_170: "calc_bmi (Some 95) (Some 170) = Some (double (329 / 10))"
  by code_simp

lemma fallback_50:
  "fallback_score
     \<lparr>age = Some 50, weight = Some 95, height = Some 170, bmi = Some (double (329 / 10))\<rparr>
     = double (358 / 1000)"
  by code_simp

lemma label_358: "label_from_prob (double (358 / 1000)) = ''Medium''"
  by code_simp

text \<open>
  The decimals 34/100 and 67/100 lie strictly between two neighbouring floats, the
  upper one being the literal: floats are \<open>2^-54\<close> apart between 1/4 and 1/2 and
  \<open>2^-53\<close> apart between 1/2 and 1.
\<close>

lemma threshold_literals:
  "double (34 / 100) - pow2 (- 54) < 34 / 100 \<and> 34 / 100 < double (34 / 100)
   \<and> double (67 / 100) - pow2 (- 53) < 67 / 100 \<and> 67 / 100 < double (67 / 100)"
  by code_simp

text \<open>
  Rounding matters: 48 kg and 160 cm give 18.7, not the 18.8 of the exact quotient
  18.75, and age 54 with BMI 30.0 scores the float just below 0.34, which is Low.
\<close>

lemma bmi_48_160: "calc_bmi (Some 48) (Some 160) = Some (double (187 / 10))"
  by code_simp

lemma fallback_54_30:
  "fallback_score \<lparr>age = Some 54, weight = Some (double (768 / 10)), height = Some 160,
       bmi = Some 30\<rparr> = 3062447746611937 / 9007199254740992
   \<and> label_from_prob (3062447746611937 / 9007199254740992) = ''Low''"
  by code_simp

text \<open>The two page runs that lead from the fresh session to the stale one.\<close>

lemma scored_run:
  "risk_page None ''2025-01-01T10:00:00'' (Some 50) (Some 95) (Some 170) True fresh_session
     = Inr (Scored, scored_session)"
  by code_simp

lemma failed_run:
  "risk_page None ''2025-01-02T09:00:00'' (Some 25) (Some 60) (Some 0) True scored_session
     = Inr (ValidationFailure, stale_session)"
  by (simp add: risk_page_def ensure_state_def scored_session_def stale_session_def
      fill_form_def all_fields_def truthy_def truthy_int_def Let_def)

lemma results_page_saves:
  "results_page ''2025-01-02T09:00:05'' stale_session
     = save_assessment ''2025-01-02T09:00:05'' scored_result stale_session"
  by (simp add: results_page_def ensure_state_def stale_session_def scored_result_def
      result_empty_def Let_def)

text \<open>What \<open>calc_bmi\<close> guards: a missing or zero input and a height that is not positive.\<close>

lemma calc_bmi_guard:
  "calc_bmi w h = None \<longleftrightarrow>
     (w = None \<or> w = Some 0 \<or> h = None \<or> (\<exists>x. h = Some x \<and> x \<le> 0))"
  by (cases w; cases h) (auto simp add: Let_def)


section \<open>Properties of the specification\<close>

subsection \<open>C1: recording a result twice\<close>

text \<open>
  Against C1 as stated: \<open>save_assessment\<close> has no guard. In a fresh session the first
  recording call leaves one record and the second call with the same result leaves two.
\<close>

theorem save_assessment_twice_counterexample:
  "history_length (save_assessment ''2025-01-01T10:00:05'' scored_result fresh_session) = Some 1
   \<and> history_length (record_twice ''2025-01-01T10:00:05'' scored_result fresh_session) = Some 2"
  by (simp add: history_length_def record_twice_def save_assessment_eq
      ensure_state_assessments get_default_def fresh_session_def)

text \<open>
  C1, amended: every recording call succeeds and appends exactly one record to the
  history, whatever was recorded before; so recording the same result twice makes the
  history two records longer, one per call.
\<close>

theorem save_assessment_appends_one:
  "history_length (save_assessment now res s)
     = Some (length (get_default (assessments s) []) + 1)
   \<and> history_length (record_twice now res s)
     = Some (length (get_default (assessments s) []) + 2)"
  by (simp add: history_length_def record_twice_def save_assessment_eq
      ensure_state_assessments get_default_def)

subsection \<open>C2: the classifier\<close>

text \<open>
  C2: \<open>label_from_prob\<close> is a total function of the probability; it answers Low exactly
  below 0.34, Medium exactly from 0.34 up to but excluding 0.67, and High exactly from
  0.67 on, so that 0.34 is Medium, 0.67 is High and no probability has two tiers.
\<close>

theorem label_from_prob_thresholds:
  "(label_from_prob p = ''Low'') = (p < 34 / 100)
   \<and> (label_from_prob p = ''Medium'') = (34 / 100 \<le> p \<and> p < 67 / 100)
   \<and> (label_from_prob p = ''High'') = (67 / 100 \<le> p)
   \<and> label_from_prob (34 / 100) = ''Medium''
   \<and> label_from_prob (67 / 100) = ''High''"
  by (auto simp add: label_from_prob_def)

subsection \<open>C3: the BMI calculator\<close>

text \<open>
  C3 asks for the unavailable result whenever an input is negative. \<open>calc_bmi\<close> tests
  the height for \<open>\<le> 0\<close> but the weight only for truth, so at weight -70 kg and height
  170 cm it returns the BMI -24.2 (the float nearest to it) instead of \<open>None\<close>.
\<close>

theorem calc_bmi_negative_weight:
  "calc_bmi (Some (- 70)) (Some 170) = Some (double (- (242 / 10)))"
  by code_simp

subsection \<open>C4: the rule-based score\<close>

text \<open>
  C4: without a model the predictor returns the rule-based score, computed in float
  arithmetic as the code writes it: from 0, plus (age - 30) * 0.01 when the age is above
  30, plus (bmi - 25) * 0.02 when the BMI is above 25, clamped to the interval from 0
  to 1. For 95 kg and 170 cm the BMI is 32.9, and at age 50 the score is 0.358, which
  is Medium.
\<close>

theorem rule_based_score:
  "model_predict_prob None features =
     max 0 (min 1
       (fadd
          (fadd 0
             (if get_default (age features) 0 > 30
              then fmul (double (of_int (get_default (age features) 0 - 30))) (double (1 / 100))
              else 0))
          (if get_default (bmi features) 0 > 25
           then fmul (fsub (get_default (bmi features) 0) 25) (double (2 / 100))
           else 0)))
   \<and> calc_bmi (Some 95) (Some 170) = Some (double (329 / 10))
   \<and> model_predict_prob None
         \<lparr>age = Some 50, weight = Some 95, height = Some 170, bmi = Some (double (329 / 10))\<rparr>
       = double (358 / 1000)
   \<and> label_from_prob (double (358 / 1000)) = ''Medium''"
proof (intro conjI)
  show "model_predict_prob None features =
     max 0 (min 1
       (fadd
          (fadd 0
             (if get_default (age features) 0 > 30
              then fmul (double (of_int (get_default (age features) 0 - 30))) (double (1 / 100))
              else 0))
          (if get_default (bmi features) 0 > 25
           then fmul (fsub (get_default (bmi features) 0) 25) (double (2 / 100))
           else 0)))"
    by (simp add: model_predict_prob_def fallback_score_def get_default_def Let_def)
  show "calc_bmi (Some 95) (Some 170) = Some (double (329 / 10))"
    by (rule bmi_95_170)
  show "model_predict_prob None
         \<lparr>age = Some 50, weight = Some 95, height = Some 170, bmi = Some (double (329 / 10))\<rparr>
       = double (358 / 1000)"
    by (simp add: model_predict_prob_def fallback_50)
  show "label_from_prob (double (358 / 1000)) = ''Medium''"
    by (rule label_358)
qed

subsection \<open>C5: the probability is in range\<close>

text \<open>
  C5: for every feature dictionary and whether a model is loaded or not, whatever the
  model answers, the probability returned by \<open>model_predict_prob\<close> lies between 0 and 1.
\<close>

theorem model_predict_prob_in_range:
  "0 \<le> model_predict_prob model features \<and> model_predict_prob model features \<le> 1"
  by (simp add: model_predict_prob_def try_model_def fallback_score_def Let_def
      split: option.splits sum.splits)

subsection \<open>C6: a failing model falls back\<close>

text \<open>
  C6: when no model is loaded, or the call of the model raises, \<open>model_predict_prob\<close>
  returns the rule-based fallback score; it returns a probability and no error.
\<close>

theorem model_failure_falls_back:
  assumes "model = None \<or> (\<exists>m e. model = Some m \<and> m (age features) (bmi features) = Inl e)"
  shows "model_predict_prob model features = fallback_score features
         \<and> 0 \<le> model_predict_prob model features \<and> model_predict_prob model features \<le> 1"
  using assms
  by (auto simp add: model_predict_prob_def try_model_def fallback_score_def Let_def)

text \<open>A model that always raises, on the profile age 50 and BMI 32.9.\<close>

theorem model_failure_falls_back_witness:
  "(Some (\<lambda>a b. Inl PredictorError) = (None :: predictor option)
      \<or> (\<exists>m e. Some (\<lambda>a b. Inl PredictorError) = Some m
            \<and> m (age \<lparr>age = Some 50, weight = Some 95, height = Some 170,
                       bmi = Some (double (329 / 10))\<rparr>)
                 (bmi \<lparr>age = Some 50, weight = Some 95, height = Some 170,
                       bmi = Some (double (329 / 10))\<rparr>)
               = Inl e))
   \<and> model_predict_prob (Some (\<lambda>a b. Inl PredictorError))
        \<lparr>age = Some 50, weight = Some 95, height = Some 170, bmi = Some (double (329 / 10))\<rparr>
       = double (358 / 1000)"
  using model_failure_falls_back [of "Some (\<lambda>a b. Inl PredictorError)"
      "\<lparr>age = Some 50, weight = Some 95, height = Some 170, bmi = Some (double (329 / 10))\<rparr>"]
  by (simp add: fallback_50)

subsection \<open>C7: validation\<close>

text \<open>
  C7: when a submission lacks the age, the weight, the height or the derived BMI (a
  missing or zero value), the risk page reports the validation failure, leaves the
  current result and the history as they were, and does not consult the predictor: the
  outcome is the same for every model and clock.
\<close>

theorem validation_failure_stays_in_draft:
  assumes "\<not> (truthy_int age_in \<and> truthy weight_in \<and> truthy height_in
             \<and> truthy (calc_bmi weight_in height_in))"
  shows "\<exists>s'. risk_page model now age_in weight_in height_in True s = Inr (ValidationFailure, s')
           \<and> current_result s' = current_result (ensure_state s)
           \<and> assessments s' = assessments (ensure_state s)
           \<and> risk_page model' now' age_in weight_in height_in True s = Inr (ValidationFailure, s')"
proof -
  obtain f0 where f0: "current_form (ensure_state s) = Some f0"
    using ensure_state_form by blast
  have nf: "\<not> all_fields (fill_form age_in weight_in height_in f0)"
    using assms by (simp only: all_fields_fill_form not_False_eq_True)
  show ?thesis
    using f0 nf by (simp add: risk_page_def Let_def)
qed

text \<open>The submission with height 0 in a fresh session.\<close>

theorem validation_failure_stays_in_draft_witness:
  "\<not> (truthy_int (Some 50) \<and> truthy (Some 95) \<and> truthy (Some 0)
        \<and> truthy (calc_bmi (Some 95) (Some 0)))
   \<and> (\<exists>s'. risk_page None ''2025-01-01T10:00:00'' (Some 50) (Some 95) (Some 0) True fresh_session
               = Inr (ValidationFailure, s')
           \<and> current_result s' = Some None
           \<and> assessments s' = Some [])"
  using validation_failure_stays_in_draft
    [of "Some 50" "Some 95" "Some 0" None "''2025-01-01T10:00:00''" fresh_session
        None "''2025-01-01T10:00:00''"]
  by (auto simp add: truthy_def ensure_state_def fresh_session_def Let_def)

subsection \<open>C8: the record and the snapshot\<close>

text \<open>
  C8 asks that the age, weight, height and BMI of a record be those of the snapshot in
  the result. \<open>save_assessment\<close> takes them from the current form instead: in the stale
  session the result of the submission age 50, 95 kg, 170 cm is recorded with age 25,
  60 kg and height 0, while its probability, tier and time are those of the result.
\<close>

theorem save_assessment_reads_form:
  "save_assessment ''2025-01-02T09:00:05'' scored_result stale_session =
     Inr (stale_session\<lparr>assessments :=
       Some [\<lparr>a_created_at = ''2025-01-01T10:00:00'', a_age = Some 25, a_weight = Some 60,
              a_height = Some 0, a_bmi = Some (double (329 / 10)),
              risk_prob = Some (double (358 / 1000)), risk_label = Some ''Medium''\<rparr>]\<rparr>)
   \<and> inputs scored_result
       = Some \<lparr>age = Some 50, weight = Some 95, height = Some 170,
                bmi = Some (double (329 / 10))\<rparr>"
  by (simp add: save_assessment_def ensure_state_def stale_session_def scored_result_def
      get_default_def Let_def)

subsection \<open>C9: two scoring schemes\<close>

text \<open>
  C9: the two schemes disagree on a profile. At age 80 and BMI 43 with no other risk
  factor the point score is 50, which is Medium Risk, while the linear formula gives the
  probability 0.86, which is High.
\<close>

theorem schemes_diverge:
  "calculate_risk_score
       \<lparr>ud_age = Some 80, ud_bmi = Some 43, family_history = Some False,
        regular_exercise = Some True, high_bp = Some False, high_glucose = Some False\<rparr>
     = (50, ''Medium Risk'', 60)
   \<and> model_predict_prob None
       \<lparr>age = Some 80, weight = Some 110, height = Some 160, bmi = Some 43\<rparr>
     = double (86 / 100)
   \<and> label_from_prob (double (86 / 100)) = ''High''"
  by code_simp

subsection \<open>C10: clearing the current run\<close>

text \<open>
  C10: \<open>clear_current\<close> sets the four form fields and the current result to \<open>None\<close>
  and leaves the history as it was.
\<close>

theorem clear_current_keeps_history:
  "assessments (clear_current s) = assessments s
   \<and> current_form (clear_current s)
       = Some \<lparr>age = None, weight = None, height = None, bmi = None\<rparr>
   \<and> current_result (clear_current s) = Some None"
  by (simp add: clear_current_def)

end
